theory Spec2Isabelle
  imports Main "HOL-Library.Sublist"
begin

section \<open>Python built-ins used by \<^verbatim>\<open>rich_dataframe.py\<close>\<close>

text \<open>
  The exceptions the statements of the program could raise: an index out of range
  (\<^verbatim>\<open>self.table.columns[i]\<close>, \<^verbatim>\<open>COLORS[...]\<close>), a zero modulus
  (\<^verbatim>\<open>i % self.num_colors\<close>) and a zero step of \<^verbatim>\<open>range\<close>.
\<close>

datatype error = IndexError | ZeroDivisionError | ValueError

definition and_then :: "error + 'a \<Rightarrow> ('a \<Rightarrow> error + 'b) \<Rightarrow> error + 'b" where
  "and_then r f = (case r of Inl e \<Rightarrow> Inl e | Inr x \<Rightarrow> f x)"

text \<open>
  Slices. \<^verbatim>\<open>xs[:n]\<close> and \<^verbatim>\<open>xs[k:]\<close> never raise: a bound past either end
  is clipped, and a negative bound counts from the end. The same rules hold for a pandas
  \<^verbatim>\<open>Index\<close> and for the first axis of a numpy array.
\<close>

definition slice_to :: "int \<Rightarrow> 'a list \<Rightarrow> 'a list" where
  "slice_to n xs = (if 0 \<le> n then take (nat n) xs else take (length xs - nat (- n)) xs)"

definition slice_from :: "int \<Rightarrow> 'a list \<Rightarrow> 'a list" where
  "slice_from k xs = (if 0 \<le> k then drop (nat k) xs else drop (length xs - nat (- k)) xs)"

text \<open>
  \<^verbatim>\<open>range(start, stop, step)\<close>: the values \<^verbatim>\<open>start, start + step, ...\<close> as long as
  they stay before \<^verbatim>\<open>stop\<close> in the direction of the step; a zero step raises
  \<^verbatim>\<open>ValueError\<close>.
\<close>

function range_values :: "int \<Rightarrow> int \<Rightarrow> int \<Rightarrow> int list" where
  "range_values start stop step =
     (if 0 < step \<and> start < stop then start # range_values (start + step) stop step
      else if step < 0 \<and> stop < start then start # range_values (start + step) stop step
      else [])"
  by pat_completeness auto
termination
  by (relation "measure (\<lambda>(start, stop, step).
        nat (if 0 < step then stop - start else start - stop))") auto

declare range_values.simps [simp del]

definition py_range :: "int \<Rightarrow> int \<Rightarrow> int \<Rightarrow> error + int list" where
  "py_range start stop step =
     (if step = 0 then Inl ValueError else Inr (range_values start stop step))"

text \<open>\<^verbatim>\<open>str\<close> of an integer, which is also how an f-string formats one.\<close>

fun str_nat :: "nat \<Rightarrow> string" where
  "str_nat n =
     (if n < 10 then [''0123456789'' ! n]
      else str_nat (n div 10) @ [''0123456789'' ! (n mod 10)])"

declare str_nat.simps [simp del]

definition str_int :: "int \<Rightarrow> string" where
  "str_int i = (if i < 0 then CHR ''-'' # str_nat (nat (- i)) else str_nat (nat i))"

text \<open>A \<^verbatim>\<open>for\<close> loop over a list whose body may raise: the first exception ends it.\<close>

fun for_each :: "'x list \<Rightarrow> ('x \<Rightarrow> 's \<Rightarrow> error + 's) \<Rightarrow> 's \<Rightarrow> error + 's" where
  "for_each [] body s = Inr s"
| "for_each (x # xs) body s =
     (case body x s of Inl e \<Rightarrow> Inl e | Inr s' \<Rightarrow> for_each xs body s')"

section \<open>The table widget\<close>

text \<open>
  Modelled from the spec: the \<^verbatim>\<open>Table\<close> and \<^verbatim>\<open>Column\<close> classes of the external
  rendering library (\<^verbatim>\<open>rich.table\<close>), which are not part of the repository. The spec's data
  model gives a table an ordered list of columns (header text, justification, header color,
  body style), an ordered list of rows of cell texts, a box style, a border color, a
  per-row style cycle, a display width (or auto) and a caption. A new table has no
  columns, no rows, no border color, an empty row-style cycle, width auto and no caption;
  a new column is left-justified with empty styles.
\<close>

datatype box = HEAVY_HEAD | MINIMAL | SIMPLE | SIMPLE_HEAD | SQUARE

record column =
  header :: string
  justify :: string
  header_style :: string
  style :: string

record table =
  t_columns :: "column list"
  t_rows :: "string list list"
  box :: box
  border_style :: "string option"
  row_styles :: "string list"
  width :: "int option"
  caption :: "string option"

definition new_table :: table where
  "new_table = \<lparr>t_columns = [], t_rows = [], box = HEAVY_HEAD, border_style = None,
                 row_styles = [], width = None, caption = None\<rparr>"

definition new_column :: "string \<Rightarrow> column" where
  "new_column h = \<lparr>header = h, justify = ''left'', header_style = [], style = []\<rparr>"

definition add_column :: "string \<Rightarrow> table \<Rightarrow> table" where
  "add_column h t = t\<lparr>t_columns := t_columns t @ [new_column h]\<rparr>"

definition add_row :: "string list \<Rightarrow> table \<Rightarrow> table" where
  "add_row cells t = t\<lparr>t_rows := t_rows t @ [cells]\<rparr>"

text \<open>
  \<^verbatim>\<open>self.table.columns[i].attr = v\<close>: the column list is indexed first, so an index
  out of range raises \<^verbatim>\<open>IndexError\<close>.
\<close>

definition set_column :: "nat \<Rightarrow> (column \<Rightarrow> column) \<Rightarrow> table \<Rightarrow> error + table" where
  "set_column i f t =
     (if i < length (t_columns t)
      then Inr (t\<lparr>t_columns := (t_columns t)[i := f (t_columns t ! i)]\<rparr>)
      else Inl IndexError)"

section \<open>The program\<close>

definition COLORS :: "string list" where
  "COLORS = [''cyan'', ''magenta'', ''red'', ''green'', ''blue'', ''purple'']"

text \<open>
  The input: a pandas \<^verbatim>\<open>DataFrame\<close>, read through \<^verbatim>\<open>df.columns\<close> (the column
  names) and \<^verbatim>\<open>df.values\<close> (the rows, each a sequence of cells). A \<^verbatim>\<open>DataFrame\<close>
  is rectangular: every row has one cell per column.
\<close>

record 'a dataframe =
  df_columns :: "string list"
  df_values :: "'a list list"

definition rectangular :: "'a dataframe \<Rightarrow> bool" where
  "rectangular d = list_all (\<lambda>r. length r = length (df_columns d)) (df_values d)"

text \<open>
  The fields of a \<^verbatim>\<open>DataFramePrettify\<close> object. (\<^verbatim>\<open>table_centered\<close> only wraps
  \<^verbatim>\<open>table\<close> for the renderer and is left out.)
\<close>

record 'a DataFramePrettify =
  df :: "'a dataframe"
  table :: table
  num_colors :: nat
  delay_time :: int
  row_limit :: int
  col_limit :: int
  first_cols :: bool
  columns :: "string list"
  rows :: "'a list list"

text \<open>\<^verbatim>\<open>__init__(df, row_limit, col_limit, first_rows, first_cols, delay_time)\<close>.\<close>

definition init ::
  "'a dataframe \<Rightarrow> int \<Rightarrow> int \<Rightarrow> bool \<Rightarrow> bool \<Rightarrow> int \<Rightarrow> 'a DataFramePrettify" where
  "init d rl cl first_rows fc dt =
     \<lparr>df = d, table = new_table, num_colors = length COLORS, delay_time = dt,
      row_limit = rl, col_limit = cl, first_cols = fc,
      columns = (if fc then slice_to cl (df_columns d) else slice_from (- cl) (df_columns d)),
      rows = (if first_rows then slice_to rl (df_values d)
              else slice_from (- rl) (df_values d))\<rparr>"

text \<open>
  The console: what the program reads from it (its width, and the widest rendering of a
  table as \<^verbatim>\<open>Measurement.get(console, table).maximum\<close> reports it) is a parameter.
  What the program shows on it is a list of frames: every \<^verbatim>\<open>with beat(n)\<close> block
  appends the table as its body left it, with the number of beats slept after it.
  The methods keep their names without the leading underscore (\<open>add_columns\<close> is
  \<^verbatim>\<open>_add_columns\<close>), and each takes and returns the object together with the frames
  shown so far.
\<close>

record terminal =
  console_width :: int
  measure_maximum :: "table \<Rightarrow> int"

type_synonym frame = "int \<times> table"

type_synonym 'a st = "'a DataFramePrettify \<times> frame list"

definition beat ::
  "int \<Rightarrow> ('a DataFramePrettify \<Rightarrow> error + 'a DataFramePrettify) \<Rightarrow> 'a st \<Rightarrow> error + 'a st" where
  "beat len body st =
     (case body (fst st) of
        Inl e \<Rightarrow> Inl e
      | Inr self' \<Rightarrow> Inr (self', snd st @ [(len, table self')]))"

definition add_columns :: "'a st \<Rightarrow> error + 'a st" where
  "add_columns st =
     for_each (columns (fst st))
       (\<lambda>col st. beat (delay_time (fst st))
          (\<lambda>self. Inr (self\<lparr>table := add_column col (table self)\<rparr>)) st) st"

definition add_rows :: "('a \<Rightarrow> string) \<Rightarrow> 'a st \<Rightarrow> error + 'a st" where
  "add_rows str st =
     for_each (rows (fst st))
       (\<lambda>row st. beat (delay_time (fst st))
          (\<lambda>self.
             let row1 = (if first_cols self then slice_to (col_limit self) row
                         else slice_from (- col_limit self) row);
                 row2 = map str row1
             in Inr (self\<lparr>table := add_row row2 (table self)\<rparr>)) st) st"

definition move_text_to_right :: "'a st \<Rightarrow> error + 'a st" where
  "move_text_to_right st =
     for_each [0 ..< length (t_columns (table (fst st)))]
       (\<lambda>i st. beat (delay_time (fst st))
          (\<lambda>self. and_then (set_column i (\<lambda>c. c\<lparr>justify := ''right''\<rparr>) (table self))
             (\<lambda>t. Inr (self\<lparr>table := t\<rparr>))) st) st"

text \<open>\<^verbatim>\<open>COLORS[i % self.num_colors]\<close>.\<close>

definition color_of :: "nat \<Rightarrow> nat \<Rightarrow> error + string" where
  "color_of i n =
     (if n = 0 then Inl ZeroDivisionError
      else if i mod n < length COLORS then Inr (COLORS ! (i mod n))
      else Inl IndexError)"

definition add_random_color :: "'a st \<Rightarrow> error + 'a st" where
  "add_random_color st =
     for_each [0 ..< length (t_columns (table (fst st)))]
       (\<lambda>i st. beat (delay_time (fst st))
          (\<lambda>self. and_then (color_of i (num_colors self))
             (\<lambda>color. and_then (set_column i (\<lambda>c. c\<lparr>header_style := color\<rparr>) (table self))
                (\<lambda>t. Inr (self\<lparr>table := t\<rparr>)))) st) st"

definition add_style :: "'a st \<Rightarrow> error + 'a st" where
  "add_style st =
     for_each [0 ..< length (t_columns (table (fst st)))]
       (\<lambda>i st. beat (delay_time (fst st))
          (\<lambda>self. and_then (color_of i (num_colors self))
             (\<lambda>color. and_then (set_column i (\<lambda>c. c\<lparr>style := ''bold '' @ color\<rparr>) (table self))
                (\<lambda>t. Inr (self\<lparr>table := t\<rparr>)))) st) st"

definition adjust_box :: "'a st \<Rightarrow> error + 'a st" where
  "adjust_box st =
     for_each [MINIMAL, SIMPLE, SIMPLE_HEAD, SQUARE]
       (\<lambda>b st. beat (delay_time (fst st))
          (\<lambda>self. Inr (self\<lparr>table := (table self)\<lparr>box := b\<rparr>\<rparr>)) st) st"

definition dim_row :: "'a st \<Rightarrow> error + 'a st" where
  "dim_row st =
     beat (delay_time (fst st))
       (\<lambda>self. Inr (self\<lparr>table := (table self)\<lparr>row_styles := [''none'', ''dim'']\<rparr>\<rparr>)) st"

definition adjust_border_color :: "'a st \<Rightarrow> error + 'a st" where
  "adjust_border_color st =
     Inr ((fst st)\<lparr>table := (table (fst st))\<lparr>border_style := Some ''bright_yellow''\<rparr>\<rparr>, snd st)"

definition change_width :: "terminal \<Rightarrow> 'a st \<Rightarrow> error + 'a st" where
  "change_width tm st =
     (let original_width = measure_maximum tm (table (fst st));
          width_ranges = [(original_width, console_width tm, 2),
                          (console_width tm, original_width, - 2),
                          (original_width, 90, - 2),
                          (90, original_width + 1, 2)]
      in for_each width_ranges
           (\<lambda>(start, stop, step) st.
              and_then (py_range start stop step)
                (\<lambda>widths. and_then
                   (for_each widths
                      (\<lambda>w st. beat 1 (\<lambda>self. Inr (self\<lparr>table := (table self)\<lparr>width := Some w\<rparr>\<rparr>)) st)
                      st)
                   (\<lambda>st. beat 1 (\<lambda>self. Inr (self\<lparr>table := (table self)\<lparr>width := None\<rparr>\<rparr>)) st)))
           st)"

definition caption1 :: "int \<Rightarrow> int \<Rightarrow> string" where
  "caption1 r c =
     ''Only '' @ str_int r @ '' rows and '' @ str_int c @ '' columns is shown here.''"

definition caption2 :: "int \<Rightarrow> int \<Rightarrow> string" where
  "caption2 r c =
     ''Only [bold green] '' @ str_int r @ '' rows[/bold green] and [bold red]'' @ str_int c
       @ '' columns[/bold red] is shown here.''"

definition caption3 :: "int \<Rightarrow> int \<Rightarrow> string" where
  "caption3 r c =
     ''Only [bold magenta not dim] '' @ str_int r
       @ '' rows[/bold magenta not dim] and [bold green not dim]'' @ str_int c
       @ '' columns[/bold green not dim] are shown here.''"

definition add_caption :: "'a st \<Rightarrow> error + 'a st" where
  "add_caption st =
     and_then
       (beat (delay_time (fst st))
          (\<lambda>self. Inr (self\<lparr>table := (table self)
             \<lparr>caption := Some (caption1 (row_limit self) (col_limit self))\<rparr>\<rparr>)) st)
       (\<lambda>st. and_then
          (beat (delay_time (fst st))
             (\<lambda>self. Inr (self\<lparr>table := (table self)
                \<lparr>caption := Some (caption2 (row_limit self) (col_limit self))\<rparr>\<rparr>)) st)
          (\<lambda>st. beat (delay_time (fst st))
             (\<lambda>self. Inr (self\<lparr>table := (table self)
                \<lparr>caption := Some (caption3 (row_limit self) (col_limit self))\<rparr>\<rparr>)) st))"

text \<open>
  \<^verbatim>\<open>prettify\<close>: the nine steps in the order of the source, then \<^verbatim>\<open>return self.table\<close>.
  The result pairs the returned table with the frames shown while the steps ran.
  \<^verbatim>\<open>str\<close> on a cell is a parameter, since cells are of any scalar type.
\<close>

definition prettify ::
  "('a \<Rightarrow> string) \<Rightarrow> terminal \<Rightarrow> 'a DataFramePrettify \<Rightarrow> error + (table \<times> frame list)" where
  "prettify str tm self =
     and_then (add_columns (self, []))
    (\<lambda>st. and_then (add_rows str st)
    (\<lambda>st. and_then (move_text_to_right st)
    (\<lambda>st. and_then (add_random_color st)
    (\<lambda>st. and_then (add_style st)
    (\<lambda>st. and_then (adjust_box st)
    (\<lambda>st. and_then (adjust_border_color st)
    (\<lambda>st. and_then (change_width tm st)
    (\<lambda>st. and_then (add_caption st)
    (\<lambda>st. Inr (table (fst st), snd st))))))))))"

section \<open>Auxiliary notions for the proofs\<close>

text \<open>The tables a loop passes through when its body applies \<open>f x\<close> to the table.\<close>

fun trail :: "('x \<Rightarrow> table \<Rightarrow> table) \<Rightarrow> 'x list \<Rightarrow> table \<Rightarrow> table list" where
  "trail f [] t = []"
| "trail f (x # xs) t = f x t # trail f xs (f x t)"

text \<open>The cells \<^verbatim>\<open>_add_rows\<close> passes to \<^verbatim>\<open>add_row\<close> for one row.\<close>

definition shown_cells :: "('a \<Rightarrow> string) \<Rightarrow> bool \<Rightarrow> int \<Rightarrow> 'a list \<Rightarrow> string list" where
  "shown_cells str fc cl row = map str (if fc then slice_to cl row else slice_from (- cl) row)"

text \<open>Column \<open>i\<close> with the attribute change \<open>g i\<close>, without the range check.\<close>

definition upd_col :: "(nat \<Rightarrow> column \<Rightarrow> column) \<Rightarrow> nat \<Rightarrow> table \<Rightarrow> table" where
  "upd_col g i t = t\<lparr>t_columns := (t_columns t)[i := g i (t_columns t ! i)]\<rparr>"

text \<open>
  What the three styling loops leave of column \<open>i\<close>, and the table a whole run leaves:
  the closed form that \<open>prettify\<close> is proved to compute.
\<close>

definition restyle :: "nat \<Rightarrow> column \<Rightarrow> column" where
  "restyle i c = c\<lparr>justify := ''right'', header_style := COLORS ! (i mod 6),
                    style := ''bold '' @ COLORS ! (i mod 6)\<rparr>"

definition final_table :: "('a \<Rightarrow> string) \<Rightarrow> 'a DataFramePrettify \<Rightarrow> table" where
  "final_table str self =
     (let cs = t_columns (table self) @ map new_column (columns self)
      in (table self)
           \<lparr>t_columns := map (\<lambda>i. restyle i (cs ! i)) [0 ..< length cs],
            t_rows := t_rows (table self)
                      @ map (shown_cells str (first_cols self) (col_limit self)) (rows self),
            box := SQUARE,
            border_style := Some ''bright_yellow'',
            width := None,
            caption := Some (caption3 (row_limit self) (col_limit self))\<rparr>)"

text \<open>
  Two tables with the same rows, the same number of columns and the same row-style cycle:
  what every styling step keeps.
\<close>

definition same_grid :: "table \<Rightarrow> table \<Rightarrow> bool" where
  "same_grid t t' \<longleftrightarrow>
     row_styles t' = row_styles t \<and> length (t_columns t') = length (t_columns t)
     \<and> t_rows t' = t_rows t"

text \<open>Every row of the table has one cell per column.\<close>

definition rows_fit :: "table \<Rightarrow> bool" where
  "rows_fit t = list_all (\<lambda>r. length r = length (t_columns t)) (t_rows t)"

text \<open>
  A table on the way from \<open>t0\<close> to \<open>tF\<close>: it has the row-style cycle of \<open>t0\<close>, its
  rows are rows of \<open>tF\<close>, and it either still has the rows of \<open>t0\<close> or already has as
  many columns as \<open>tF\<close>.
\<close>

definition on_the_way :: "table \<Rightarrow> table \<Rightarrow> table \<Rightarrow> bool" where
  "on_the_way t0 tF t \<longleftrightarrow>
     row_styles t = row_styles t0 \<and> set (t_rows t) \<subseteq> set (t_rows tF)
     \<and> (t_rows t = t_rows t0 \<or> length (t_columns t) = length (t_columns tF))"

text \<open>The dataset of the spec's scenarios, and a terminal to run them on.\<close>

definition abc_df :: "int dataframe" where
  "abc_df = \<lparr>df_columns = [''a'', ''b'', ''c''],
              df_values = [[1, 2, 3], [4, 5, 6], [7, 8, 9]]\<rparr>"

definition tty :: terminal where
  "tty = \<lparr>console_width = 100, measure_maximum = (\<lambda>t. 17)\<rparr>"

section \<open>Loops and the steps of the sequence\<close>

lemma trail_all:
  "J t \<Longrightarrow> (\<And>x t. x \<in> set xs \<Longrightarrow> J t \<Longrightarrow> J (f x t)) \<Longrightarrow> list_all J (trail f xs t)"
  by (induction xs arbitrary: t) auto

lemma for_each_beat:
  fixes self :: "'a DataFramePrettify"
  assumes step: "\<And>x t. x \<in> set xs \<Longrightarrow> J t \<Longrightarrow>
                   body x (self\<lparr>table := t\<rparr>) = Inr (self\<lparr>table := f x t\<rparr>)"
    and pres: "\<And>x t. x \<in> set xs \<Longrightarrow> J t \<Longrightarrow> J (f x t)"
    and len: "\<And>t. d (self\<lparr>table := t\<rparr>) = n"
    and J: "J t"
  shows "for_each xs (\<lambda>x st. beat (d (fst st)) (body x) st) (self\<lparr>table := t\<rparr>, log) =
         Inr (self\<lparr>table := foldl (\<lambda>t x. f x t) t xs\<rparr>, log @ map (Pair n) (trail f xs t))"
  using step pres J
proof (induction xs arbitrary: t log)
  case Nil
  then show ?case by simp
next
  case (Cons x xs)
  have b: "beat (d (fst (self\<lparr>table := t\<rparr>, log))) (body x) (self\<lparr>table := t\<rparr>, log)
           = Inr (self\<lparr>table := f x t\<rparr>, log @ [(n, f x t)])"
    using Cons.prems(1) [of x t] Cons.prems(3) by (simp add: beat_def len)
  have "for_each xs (\<lambda>x st. beat (d (fst st)) (body x) st) (self\<lparr>table := f x t\<rparr>, log @ [(n, f x t)])
        = Inr (self\<lparr>table := foldl (\<lambda>t x. f x t) (f x t) xs\<rparr>,
               (log @ [(n, f x t)]) @ map (Pair n) (trail f xs (f x t)))"
    by (rule Cons.IH) (use Cons.prems in auto)
  with b show ?case by simp
qed


lemma foldl_add_column:
  "foldl (\<lambda>t h. add_column h t) t hs = t\<lparr>t_columns := t_columns t @ map new_column hs\<rparr>"
  by (induction hs arbitrary: t) (simp_all add: add_column_def)

lemma foldl_add_row:
  "foldl (\<lambda>t r. add_row (g r) t) t rs = t\<lparr>t_rows := t_rows t @ map g rs\<rparr>"
  by (induction rs arbitrary: t) (simp_all add: add_row_def)

lemma foldl_upd_cols:
  "k \<le> length cs \<Longrightarrow>
   foldl (\<lambda>cs i. cs[i := g i (cs ! i)]) cs [0 ..< k] = map (\<lambda>i. g i (cs ! i)) [0 ..< k] @ drop k cs"
proof (induction k)
  case 0
  then show ?case by simp
next
  case (Suc k)
  then have k: "k < length cs" by simp
  have "(map (\<lambda>i. g i (cs ! i)) [0 ..< k] @ drop k cs)[k := g k ((map (\<lambda>i. g i (cs ! i)) [0 ..< k] @ drop k cs) ! k)]
        = map (\<lambda>i. g i (cs ! i)) [0 ..< k] @ (g k (cs ! k) # drop (Suc k) cs)"
    using k by (simp add: list_update_append nth_append Cons_nth_drop_Suc [symmetric])
  with Suc show ?case by simp
qed

lemma foldl_upd_col:
  "k \<le> length (t_columns t) \<Longrightarrow>
   foldl (\<lambda>t i. upd_col g i t) t [0 ..< k]
   = t\<lparr>t_columns := foldl (\<lambda>cs i. cs[i := g i (cs ! i)]) (t_columns t) [0 ..< k]\<rparr>"
  by (induction k) (simp_all add: upd_col_def)

lemma foldl_upd_col_all:
  "foldl (\<lambda>t i. upd_col g i t) t [0 ..< length (t_columns t)]
   = t\<lparr>t_columns := map (\<lambda>i. g i (t_columns t ! i)) [0 ..< length (t_columns t)]\<rparr>"
  by (simp add: foldl_upd_col foldl_upd_cols)

lemma add_columns_run:
  "add_columns (self, log) =
   Inr (self\<lparr>table := (table self)\<lparr>t_columns := t_columns (table self) @ map new_column (columns self)\<rparr>\<rparr>,
        log @ map (Pair (delay_time self)) (trail add_column (columns self) (table self)))"
  using for_each_beat [where self = self and t = "table self" and J = "\<lambda>_. True"
      and f = add_column and d = delay_time and n = "delay_time self" and xs = "columns self"
      and body = "\<lambda>col self. Inr (self\<lparr>table := add_column col (table self)\<rparr>)" and log = log]
  by (simp add: add_columns_def foldl_add_column)

lemma add_rows_run:
  "add_rows str (self, log) =
   Inr (self\<lparr>table := (table self)\<lparr>t_rows := t_rows (table self)
           @ map (shown_cells str (first_cols self) (col_limit self)) (rows self)\<rparr>\<rparr>,
        log @ map (Pair (delay_time self))
                (trail (\<lambda>row. add_row (shown_cells str (first_cols self) (col_limit self) row))
                   (rows self) (table self)))"
  using for_each_beat [where self = self and t = "table self" and J = "\<lambda>_. True"
      and f = "\<lambda>row. add_row (shown_cells str (first_cols self) (col_limit self) row)"
      and d = delay_time and n = "delay_time self" and xs = "rows self"
      and body = "\<lambda>row self. let row1 = (if first_cols self then slice_to (col_limit self) row
                         else slice_from (- col_limit self) row);
                 row2 = map str row1
             in Inr (self\<lparr>table := add_row row2 (table self)\<rparr>)" and log = log]
  by (simp add: add_rows_def foldl_add_row shown_cells_def Let_def)


lemma length_upd_col [simp]: "length (t_columns (upd_col g i t)) = length (t_columns t)"
  by (simp add: upd_col_def)

lemma color_of_6: "color_of i (length COLORS) = Inr (COLORS ! (i mod 6))"
  by (simp add: color_of_def COLORS_def)

lemma styling_loop:
  fixes self :: "'a DataFramePrettify"
  assumes body: "\<And>i t. i < length (t_columns t) \<Longrightarrow>
                   body i (self\<lparr>table := t\<rparr>) = Inr (self\<lparr>table := upd_col g i t\<rparr>)"
  shows "for_each [0 ..< length (t_columns (table self))]
           (\<lambda>i st. beat (delay_time (fst st)) (body i) st) (self, log) =
         Inr (self\<lparr>table := (table self)\<lparr>t_columns :=
                 map (\<lambda>i. g i (t_columns (table self) ! i)) [0 ..< length (t_columns (table self))]\<rparr>\<rparr>,
              log @ map (Pair (delay_time self))
                      (trail (upd_col g) [0 ..< length (t_columns (table self))] (table self)))"
  using for_each_beat [where self = self and t = "table self"
      and J = "\<lambda>t. length (t_columns t) = length (t_columns (table self))"
      and f = "upd_col g" and d = delay_time and n = "delay_time self"
      and xs = "[0 ..< length (t_columns (table self))]" and body = body and log = log]
  by (simp add: body foldl_upd_col_all)

lemma move_text_to_right_run:
  "move_text_to_right (self, log) =
   Inr (self\<lparr>table := (table self)\<lparr>t_columns :=
           map (\<lambda>i. (t_columns (table self) ! i)\<lparr>justify := ''right''\<rparr>)
             [0 ..< length (t_columns (table self))]\<rparr>\<rparr>,
        log @ map (Pair (delay_time self))
                (trail (upd_col (\<lambda>i c. c\<lparr>justify := ''right''\<rparr>))
                   [0 ..< length (t_columns (table self))] (table self)))"
  unfolding move_text_to_right_def fst_conv
  by (rule styling_loop) (simp add: and_then_def set_column_def upd_col_def)

lemma add_random_color_run:
  "num_colors self = length COLORS \<Longrightarrow>
   add_random_color (self, log) =
   Inr (self\<lparr>table := (table self)\<lparr>t_columns :=
           map (\<lambda>i. (t_columns (table self) ! i)\<lparr>header_style := COLORS ! (i mod 6)\<rparr>)
             [0 ..< length (t_columns (table self))]\<rparr>\<rparr>,
        log @ map (Pair (delay_time self))
                (trail (upd_col (\<lambda>i c. c\<lparr>header_style := COLORS ! (i mod 6)\<rparr>))
                   [0 ..< length (t_columns (table self))] (table self)))"
  unfolding add_random_color_def fst_conv
  by (rule styling_loop) (simp add: and_then_def set_column_def upd_col_def color_of_6)

lemma add_style_run:
  "num_colors self = length COLORS \<Longrightarrow>
   add_style (self, log) =
   Inr (self\<lparr>table := (table self)\<lparr>t_columns :=
           map (\<lambda>i. (t_columns (table self) ! i)\<lparr>style := ''bold '' @ COLORS ! (i mod 6)\<rparr>)
             [0 ..< length (t_columns (table self))]\<rparr>\<rparr>,
        log @ map (Pair (delay_time self))
                (trail (upd_col (\<lambda>i c. c\<lparr>style := ''bold '' @ COLORS ! (i mod 6)\<rparr>))
                   [0 ..< length (t_columns (table self))] (table self)))"
  unfolding add_style_def fst_conv
  by (rule styling_loop) (simp add: and_then_def set_column_def upd_col_def color_of_6)

lemma adjust_box_run:
  "adjust_box (self, log) =
   Inr (self\<lparr>table := (table self)\<lparr>box := SQUARE\<rparr>\<rparr>,
        log @ map (\<lambda>b. (delay_time self, (table self)\<lparr>box := b\<rparr>))
                [MINIMAL, SIMPLE, SIMPLE_HEAD, SQUARE])"
  by (simp add: adjust_box_def beat_def)

lemma adjust_border_color_run:
  "adjust_border_color (self, log) =
   Inr (self\<lparr>table := (table self)\<lparr>border_style := Some ''bright_yellow''\<rparr>\<rparr>, log)"
  by (simp add: adjust_border_color_def)

lemma trail_width:
  "trail (\<lambda>w t. t\<lparr>width := Some w\<rparr>) ws t = map (\<lambda>w. t\<lparr>width := Some w\<rparr>) ws"
  by (induction ws arbitrary: t) simp_all

lemma foldl_width:
  "foldl (\<lambda>t w. t\<lparr>width := Some w\<rparr>) t ws\<lparr>width := None\<rparr> = t\<lparr>width := None\<rparr>"
  by (induction ws arbitrary: t) simp_all

lemma width_loop:
  "and_then
     (for_each ws (\<lambda>w st. beat 1 (\<lambda>self. Inr (self\<lparr>table := (table self)\<lparr>width := Some w\<rparr>\<rparr>)) st)
        (self, log))
     (\<lambda>st. beat 1 (\<lambda>self. Inr (self\<lparr>table := (table self)\<lparr>width := None\<rparr>\<rparr>)) st) =
   Inr (self\<lparr>table := (table self)\<lparr>width := None\<rparr>\<rparr>,
        log @ map (\<lambda>w. (1, (table self)\<lparr>width := w\<rparr>)) (map Some ws @ [None]))"
  using for_each_beat [where self = self and t = "table self" and J = "\<lambda>_. True"
      and f = "\<lambda>w t. t\<lparr>width := Some w\<rparr>" and d = "\<lambda>_. 1" and n = 1 and xs = ws
      and body = "\<lambda>w self. Inr (self\<lparr>table := (table self)\<lparr>width := Some w\<rparr>\<rparr>)" and log = log]
  by (simp add: and_then_def beat_def trail_width foldl_width comp_def)

lemma add_caption_run:
  "add_caption (self, log) =
   Inr (self\<lparr>table := (table self)\<lparr>caption := Some (caption3 (row_limit self) (col_limit self))\<rparr>\<rparr>,
        log @ map (\<lambda>c. (delay_time self, (table self)\<lparr>caption := Some c\<rparr>))
                [caption1 (row_limit self) (col_limit self),
                 caption2 (row_limit self) (col_limit self),
                 caption3 (row_limit self) (col_limit self)])"
  by (simp add: add_caption_def beat_def and_then_def)


lemma and_then_Inr [simp]: "and_then (Inr x) f = f x"
  by (simp add: and_then_def)

lemma and_then_Inl [simp]: "and_then (Inl e) f = Inl e"
  by (simp add: and_then_def)

lemma change_width_run:
  "change_width tm (self, log) =
   Inr (self\<lparr>table := (table self)\<lparr>width := None\<rparr>\<rparr>,
        log @ map (\<lambda>w. (1, (table self)\<lparr>width := w\<rparr>))
          (map Some (range_values (measure_maximum tm (table self)) (console_width tm) 2) @ [None]
           @ map Some (range_values (console_width tm) (measure_maximum tm (table self)) (- 2)) @ [None]
           @ map Some (range_values (measure_maximum tm (table self)) 90 (- 2)) @ [None]
           @ map Some (range_values 90 (measure_maximum tm (table self) + 1) 2) @ [None]))"
  by (simp add: change_width_def Let_def py_range_def width_loop)

lemma range_values_up:
  "s = 2 \<Longrightarrow> range_values a b s = map (\<lambda>k. a + 2 * int k) [0 ..< nat ((b - a + 1) div 2)]"
proof (induction a b s rule: range_values.induct)
  case (1 a b s)
  show ?case
  proof (cases "a < b")
    case True
    have n: "nat ((b - a + 1) div 2) = Suc (nat ((b - (a + 2) + 1) div 2))"
      using True by (simp add: Suc_nat_eq_nat_zadd1)
    have "range_values a b s = a # range_values (a + s) b s"
      using True 1(3) by (subst range_values.simps) simp
    also have "range_values (a + s) b s = map (\<lambda>k. a + 2 + 2 * int k) [0 ..< nat ((b - (a + 2) + 1) div 2)]"
      using 1(1) [OF _ 1(3)] True 1(3) by simp
    finally show ?thesis
      unfolding n by (simp add: map_upt_Suc del: upt_Suc)
  next
    case False
    then have "nat ((b - a + 1) div 2) = 0" by simp
    moreover have "range_values a b s = []"
      using False 1(3) by (subst range_values.simps) simp
    ultimately show ?thesis by simp
  qed
qed

lemma range_values_down:
  "s = - 2 \<Longrightarrow> range_values a b s = map (\<lambda>k. a - 2 * int k) [0 ..< nat ((a - b + 1) div 2)]"
proof (induction a b s rule: range_values.induct)
  case (1 a b s)
  show ?case
  proof (cases "b < a")
    case True
    have n: "nat ((a - b + 1) div 2) = Suc (nat ((a - 2 - b + 1) div 2))"
      using True by (simp add: Suc_nat_eq_nat_zadd1)
    have "range_values a b s = a # range_values (a + s) b s"
      using True 1(3) by (subst range_values.simps) simp
    also have "range_values (a + s) b s = map (\<lambda>k. a - 2 - 2 * int k) [0 ..< nat ((a - 2 - b + 1) div 2)]"
      using 1(2) [OF _ _ 1(3)] True 1(3) by simp
    finally show ?thesis
      unfolding n by (simp add: map_upt_Suc del: upt_Suc)
  next
    case False
    then have "nat ((a - b + 1) div 2) = 0" by simp
    moreover have "range_values a b s = []"
      using False 1(3) by (subst range_values.simps) simp
    ultimately show ?thesis by simp
  qed
qed

lemma prettify_table:
  assumes nc: "num_colors self = length COLORS"
  shows "\<exists>log. prettify str tm self = Inr (final_table str self, log)"
  by (simp add: prettify_def add_columns_run add_rows_run move_text_to_right_run
      add_random_color_run add_style_run adjust_box_run adjust_border_color_run
      change_width_run add_caption_run nc final_table_def restyle_def Let_def
      cong: map_cong)

lemma num_colors_init: "num_colors (init d rl cl fr fc dt) = length COLORS"
  by (simp add: init_def)

section \<open>The scenarios (C4)\<close>

text \<open>
  C4. For the dataset with columns \<open>["a","b","c"]\<close> and rows
  \<open>[[1,2,3],[4,5,6],[7,8,9]]\<close>, a run with \<open>rowLimit = 2\<close>, \<open>colLimit = 2\<close>,
  \<open>takeFirstRows = true\<close>, \<open>takeFirstCols = true\<close> returns a table with the column
  headers \<open>["a","b"]\<close>, the rows \<open>[["1","2"],["4","5"]]\<close> and the header colors
  \<open>["cyan","magenta"]\<close>; with \<open>takeFirstCols = false\<close> and \<open>colLimit = 2\<close> the
  headers are \<open>["b","c"]\<close> (whatever the row limit, the row flag, the delay and the
  terminal).
\<close>

theorem C4_scenario:
  "(\<exists>t log. prettify str_int tm (init abc_df 2 2 True True dt) = Inr (t, log)
      \<and> map header (t_columns t) = [''a'', ''b'']
      \<and> t_rows t = [[''1'', ''2''], [''4'', ''5'']]
      \<and> map header_style (t_columns t) = [''cyan'', ''magenta''])
   \<and> (\<exists>t log. prettify str_int tm (init abc_df rl 2 fr False dt) = Inr (t, log)
      \<and> map header (t_columns t) = [''b'', ''c''])"
proof (intro conjI)
  obtain log where
    "prettify str_int tm (init abc_df 2 2 True True dt)
     = Inr (final_table str_int (init abc_df 2 2 True True dt), log)"
    using prettify_table [OF num_colors_init] by blast
  moreover have "map header (t_columns (final_table str_int (init abc_df 2 2 True True dt))) = [''a'', ''b'']"
    by (simp add: final_table_def init_def abc_df_def slice_to_def new_table_def
        new_column_def restyle_def upt_rec)
  moreover have "t_rows (final_table str_int (init abc_df 2 2 True True dt)) = [[''1'', ''2''], [''4'', ''5'']]"
    by (simp add: final_table_def init_def abc_df_def slice_to_def new_table_def
        shown_cells_def str_int_def str_nat.simps)
  moreover have "map header_style (t_columns (final_table str_int (init abc_df 2 2 True True dt)))
                 = [''cyan'', ''magenta'']"
    by (simp add: final_table_def init_def abc_df_def slice_to_def new_table_def
        new_column_def restyle_def upt_rec COLORS_def)
  ultimately show "\<exists>t log. prettify str_int tm (init abc_df 2 2 True True dt) = Inr (t, log)
      \<and> map header (t_columns t) = [''a'', ''b'']
      \<and> t_rows t = [[''1'', ''2''], [''4'', ''5'']]
      \<and> map header_style (t_columns t) = [''cyan'', ''magenta'']"
    by simp
next
  obtain log where
    "prettify str_int tm (init abc_df rl 2 fr False dt)
     = Inr (final_table str_int (init abc_df rl 2 fr False dt), log)"
    using prettify_table [OF num_colors_init] by blast
  moreover have "map header (t_columns (final_table str_int (init abc_df rl 2 fr False dt))) = [''b'', ''c'']"
    by (simp add: final_table_def init_def abc_df_def slice_from_def new_table_def
        new_column_def restyle_def upt_rec)
  ultimately show "\<exists>t log. prettify str_int tm (init abc_df rl 2 fr False dt) = Inr (t, log)
      \<and> map header (t_columns t) = [''b'', ''c'']"
    by simp
qed

section \<open>The final state (C5)\<close>

lemma final_table_styles:
  "map justify (t_columns (final_table str self))
     = replicate (length (t_columns (final_table str self))) ''right''"
  "map header_style (t_columns (final_table str self))
     = map (\<lambda>i. COLORS ! (i mod 6)) [0 ..< length (t_columns (final_table str self))]"
  "box (final_table str self) = SQUARE"
  "border_style (final_table str self) = Some ''bright_yellow''"
  "width (final_table str self) = None"
  "caption (final_table str self) = Some (caption3 (row_limit self) (col_limit self))"
  by (simp_all add: final_table_def Let_def restyle_def comp_def map_replicate_const)

text \<open>
  C5. Two runs on the same dataset, limits and flags return the same table (also when the
  terminal and the delay differ), and in that table every column is justified
  \<open>"right"\<close>, the header color of column \<open>i\<close> is \<open>COLORS[i mod 6]\<close>, the box is
  square, the border color is \<open>"bright_yellow"\<close>, the width is unset (auto) and the
  caption is the last of the three caption texts.
\<close>

theorem C5_final_state:
  "\<exists>t log log'.
      prettify str tm (init d rl cl fr fc dt) = Inr (t, log)
    \<and> prettify str tm' (init d rl cl fr fc dt') = Inr (t, log')
    \<and> map justify (t_columns t) = replicate (length (t_columns t)) ''right''
    \<and> map header_style (t_columns t) = map (\<lambda>i. COLORS ! (i mod 6)) [0 ..< length (t_columns t)]
    \<and> box t = SQUARE
    \<and> border_style t = Some ''bright_yellow''
    \<and> width t = None
    \<and> caption t = Some (caption3 rl cl)"
proof -
  have same: "final_table str (init d rl cl fr fc dt') = final_table str (init d rl cl fr fc dt)"
    by (simp add: final_table_def init_def)
  obtain log where 1: "prettify str tm (init d rl cl fr fc dt)
      = Inr (final_table str (init d rl cl fr fc dt), log)"
    using prettify_table [OF num_colors_init] by blast
  obtain log' where 2: "prettify str tm' (init d rl cl fr fc dt')
      = Inr (final_table str (init d rl cl fr fc dt), log')"
    using prettify_table [OF num_colors_init, of str tm' d rl cl fr fc dt'] same by auto
  have cap: "caption (final_table str (init d rl cl fr fc dt)) = Some (caption3 rl cl)"
    by (simp add: final_table_styles init_def)
  show ?thesis
    using 1 2 cap final_table_styles(1-5) [of str "init d rl cl fr fc dt"] by simp
qed

section \<open>The width animation (C6)\<close>

text \<open>
  C6. The width animation assigns the table width through four ranges in order, from the
  measured width to the terminal width in steps of +2, back in steps of -2, from the
  measured width to 90 in steps of -2, and from 90 to the measured width + 1 in steps of
  +2; each assignment is one frame of one beat, and after each range the width is reset to
  auto (\<open>None\<close>) for one beat. A range with step +2 holds \<open>a, a + 2, ...\<close> below its
  end point, one with step -2 holds \<open>a, a - 2, ...\<close> above it: the end point is excluded.
\<close>

theorem C6_width_animation:
  "(let original_width = measure_maximum tm (table self);
        terminal_width = console_width tm
    in change_width tm (self, log) =
       Inr (self\<lparr>table := (table self)\<lparr>width := None\<rparr>\<rparr>,
            log @ map (\<lambda>w. (1, (table self)\<lparr>width := w\<rparr>))
              (map Some (range_values original_width terminal_width 2) @ [None]
               @ map Some (range_values terminal_width original_width (- 2)) @ [None]
               @ map Some (range_values original_width 90 (- 2)) @ [None]
               @ map Some (range_values 90 (original_width + 1) 2) @ [None])))
   \<and> range_values a b 2 = map (\<lambda>k. a + 2 * int k) [0 ..< nat ((b - a + 1) div 2)]
   \<and> range_values a b (- 2) = map (\<lambda>k. a - 2 * int k) [0 ..< nat ((a - b + 1) div 2)]"
  using change_width_run [of tm self log] range_values_up [of 2 a b]
    range_values_down [of "- 2" a b]
  by (simp add: Let_def)

section \<open>The caption (C7)\<close>





section \<open>The window: which columns and rows are shown (C1, C2, C3, C8)\<close>

lemma length_slice_to_nonneg:
  "0 \<le> n \<Longrightarrow> int (length (slice_to n xs)) = min n (int (length xs))"
  by (simp add: slice_to_def)

lemma length_slice_from_pos:
  "0 < n \<Longrightarrow> int (length (slice_from (- n) xs)) = min n (int (length xs))"
  by (auto simp add: slice_from_def)



lemma map_nth_upt: "map (\<lambda>i. f (xs ! i)) [0 ..< length xs] = map f xs"
  using map_nth [of xs] by (metis (no_types, lifting) map_map comp_def map_eq_conv)

lemma final_headers:
  "map header (t_columns (final_table str (init d rl cl fr fc dt)))
   = (if fc then slice_to cl (df_columns d) else slice_from (- cl) (df_columns d))"
proof -
  let ?cs = "map new_column (if fc then slice_to cl (df_columns d) else slice_from (- cl) (df_columns d))"
  have "map header (t_columns (final_table str (init d rl cl fr fc dt)))
        = map (\<lambda>i. header (?cs ! i)) [0 ..< length ?cs]"
    by (simp add: final_table_def init_def new_table_def restyle_def comp_def)
  also have "\<dots> = map header ?cs"
    by (rule map_nth_upt)
  finally show ?thesis
    by (simp add: comp_def new_column_def)
qed

lemma final_rows:
  "t_rows (final_table str (init d rl cl fr fc dt))
   = map (shown_cells str fc cl)
       (if fr then slice_to rl (df_values d) else slice_from (- rl) (df_values d))"
  by (simp add: final_table_def init_def new_table_def)

lemma run_init:
  "\<exists>log. prettify str tm (init d rl cl fr fc dt)
         = Inr (final_table str (init d rl cl fr fc dt), log)"
  by (rule prettify_table) (simp add: init_def)

text \<open>
  C1, as amended. For every dataset, every \<open>colLimit\<close> that is at least 0 when
  \<open>takeFirstCols\<close> is true and at least 1 when it is false, and every \<open>rowLimit\<close> that
  is at least 0 when \<open>takeFirstRows\<close> is true and at least 1 when it is false, the run
  returns a table whose column count is \<open>min(colLimit, total columns)\<close> and whose row count
  is \<open>min(rowLimit, total rows)\<close>.
\<close>

theorem C1_counts:
  assumes cols: "if fc then 0 \<le> cl else 0 < cl"
    and rws: "if fr then 0 \<le> rl else 0 < rl"
  shows "\<exists>t log. prettify str tm (init d rl cl fr fc dt) = Inr (t, log)
           \<and> int (length (t_columns t)) = min cl (int (length (df_columns d)))
           \<and> int (length (t_rows t)) = min rl (int (length (df_values d)))"
proof -
  obtain log where run: "prettify str tm (init d rl cl fr fc dt)
      = Inr (final_table str (init d rl cl fr fc dt), log)"
    using run_init by blast
  have "length (t_columns (final_table str (init d rl cl fr fc dt)))
        = length (map header (t_columns (final_table str (init d rl cl fr fc dt))))"
    by simp
  also have "int \<dots> = min cl (int (length (df_columns d)))"
    unfolding final_headers using cols
    by (simp add: length_slice_to_nonneg length_slice_from_pos split: if_splits)
  finally have c: "int (length (t_columns (final_table str (init d rl cl fr fc dt))))
      = min cl (int (length (df_columns d)))" .
  have r: "int (length (t_rows (final_table str (init d rl cl fr fc dt))))
      = min rl (int (length (df_values d)))"
    unfolding final_rows using rws
    by (simp add: length_slice_to_nonneg length_slice_from_pos split: if_splits)
  show ?thesis using run c r by simp
qed

theorem C1_counts_witness:
  "\<exists>t log. prettify str_int tty (init abc_df 2 2 True False 5) = Inr (t, log)
     \<and> int (length (t_columns t)) = 2 \<and> int (length (t_rows t)) = 2"
  using C1_counts [where fc = False and cl = 2 and fr = True and rl = 2 and str = str_int
      and tm = tty and d = abc_df and dt = 5]
  by (simp add: abc_df_def)

text \<open>
  C1 as stated, for every value of the limits, fails: on the three-column dataset a
  \<open>colLimit\<close> of -1 with \<open>takeFirstCols = true\<close> gives two columns, not
  \<open>min(-1, 3)\<close>, and a \<open>colLimit\<close> of 0 with \<open>takeFirstCols = false\<close> gives three
  columns, not \<open>min(0, 3)\<close>.
\<close>

theorem C1_counterexample:
  "(case prettify str_int tty (init abc_df 2 (- 1) True True 5) of
      Inl e \<Rightarrow> False
    | Inr (t, log) \<Rightarrow> int (length (t_columns t)) \<noteq> min (- 1) (int (length (df_columns abc_df))))
   \<and> (case prettify str_int tty (init abc_df 2 0 True False 5) of
      Inl e \<Rightarrow> False
    | Inr (t, log) \<Rightarrow> int (length (t_columns t)) \<noteq> min 0 (int (length (df_columns abc_df))))"
proof -
  obtain log1 where 1: "prettify str_int tty (init abc_df 2 (- 1) True True 5)
      = Inr (final_table str_int (init abc_df 2 (- 1) True True 5), log1)"
    using run_init by blast
  obtain log2 where 2: "prettify str_int tty (init abc_df 2 0 True False 5)
      = Inr (final_table str_int (init abc_df 2 0 True False 5), log2)"
    using run_init by blast
  have "length (map header (t_columns (final_table str_int (init abc_df 2 (- 1) True True 5)))) = 2"
    unfolding final_headers by (simp add: slice_to_def abc_df_def)
  moreover have "length (map header (t_columns (final_table str_int (init abc_df 2 0 True False 5)))) = 3"
    unfolding final_headers by (simp add: slice_from_def abc_df_def)
  ultimately show ?thesis
    using 1 2 by (auto simp add: abc_df_def)
qed

text \<open>
  Within the limits of the amended C1 the headers and the rows are the first or the last
  \<open>colLimit\<close> names and \<open>rowLimit\<close> rows, each row cut to its first or last
  \<open>colLimit\<close> cells and every cell as its string.
\<close>

lemma headers_within_limits:
  assumes "if fc then 0 \<le> cl else 0 < cl"
  shows "\<exists>t log. prettify str tm (init d rl cl fr fc dt) = Inr (t, log)
           \<and> map header (t_columns t)
               = (if fc then take (nat cl) (df_columns d)
                  else drop (length (df_columns d) - nat cl) (df_columns d))"
proof -
  obtain log where "prettify str tm (init d rl cl fr fc dt)
      = Inr (final_table str (init d rl cl fr fc dt), log)"
    using run_init by blast
  then show ?thesis
    using assms by (auto simp add: final_headers slice_to_def slice_from_def)
qed

lemma rows_within_limits:
  assumes "if fc then 0 \<le> cl else 0 < cl" and "if fr then 0 \<le> rl else 0 < rl"
  shows "\<exists>t log. prettify str tm (init d rl cl fr fc dt) = Inr (t, log)
           \<and> t_rows t
               = map (\<lambda>row. map str (if fc then take (nat cl) row
                                      else drop (length row - nat cl) row))
                   (if fr then take (nat rl) (df_values d)
                    else drop (length (df_values d) - nat rl) (df_values d))"
proof -
  obtain log where "prettify str tm (init d rl cl fr fc dt)
      = Inr (final_table str (init d rl cl fr fc dt), log)"
    using run_init by blast
  then show ?thesis
    using assms by (auto simp add: final_rows shown_cells_def slice_to_def slice_from_def)
qed

text \<open>
  C2, the code at the failing input: with \<open>colLimit = 0\<close> and \<open>takeFirstCols = false\<close>
  the slice \<^verbatim>\<open>df.columns[-0:]\<close> is the whole list, so the returned headers are all three
  column names and not the last zero of them.
\<close>

theorem C2_last_zero_columns:
  "(case prettify str_int tty (init abc_df 2 0 True False 5) of
      Inl e \<Rightarrow> False
    | Inr (t, log) \<Rightarrow> map header (t_columns t) = [''a'', ''b'', ''c''])"
proof -
  obtain log where "prettify str_int tty (init abc_df 2 0 True False 5)
      = Inr (final_table str_int (init abc_df 2 0 True False 5), log)"
    using run_init by blast
  then show ?thesis
    by (simp add: final_headers slice_from_def abc_df_def)
qed

text \<open>
  C3, the code at the failing inputs: with \<open>rowLimit = 0\<close> and \<open>takeFirstRows = false\<close>
  the slice \<^verbatim>\<open>df.values[-0:]\<close> is every row, so three rows are added and not the last
  zero; with \<open>colLimit = 0\<close> and \<open>takeFirstCols = false\<close> each added row keeps all its
  cells and not its last zero.
\<close>

theorem C3_last_zero_rows:
  "(case prettify str_int tty (init abc_df 0 2 False True 5) of
      Inl e \<Rightarrow> False
    | Inr (t, log) \<Rightarrow> t_rows t = [[''1'', ''2''], [''4'', ''5''], [''7'', ''8'']])
   \<and> (case prettify str_int tty (init abc_df 2 0 True False 5) of
      Inl e \<Rightarrow> False
    | Inr (t, log) \<Rightarrow> t_rows t = [[''1'', ''2'', ''3''], [''4'', ''5'', ''6'']])"
proof -
  obtain log1 where 1: "prettify str_int tty (init abc_df 0 2 False True 5)
      = Inr (final_table str_int (init abc_df 0 2 False True 5), log1)"
    using run_init by blast
  obtain log2 where 2: "prettify str_int tty (init abc_df 2 0 True False 5)
      = Inr (final_table str_int (init abc_df 2 0 True False 5), log2)"
    using run_init by blast
  show ?thesis
    using 1 2
    by (simp add: final_rows slice_from_def slice_to_def abc_df_def shown_cells_def
        str_int_def str_nat.simps)
qed



section \<open>Every frame of a run (C9, C10)\<close>

lemma frames_map_Pair: "list_all (\<lambda>f. Q (snd f)) (map (Pair n) ts) = list_all Q ts"
  by (simp add: list_all_iff)

lemma list_all_mono': "list_all P xs \<Longrightarrow> (\<And>x. P x \<Longrightarrow> Q x) \<Longrightarrow> list_all Q xs"
  by (simp add: list_all_iff)

lemma trail_add_column_keeps:
  "list_all (\<lambda>t'. row_styles t' = row_styles t \<and> t_rows t' = t_rows t) (trail add_column hs t)"
  by (rule trail_all) (simp_all add: add_column_def)

lemma trail_add_row_keeps:
  "list_all (\<lambda>t'. row_styles t' = row_styles t \<and> t_columns t' = t_columns t
               \<and> set (t_rows t') \<subseteq> set (t_rows t) \<union> g ` set rs)
     (trail (\<lambda>r. add_row (g r)) rs t)"
  by (rule trail_all) (auto simp add: add_row_def)

lemma trail_upd_col_grid: "same_grid t0 t \<Longrightarrow> list_all (same_grid t0) (trail (upd_col g) xs t)"
  by (rule trail_all) (simp_all add: same_grid_def upd_col_def)

lemma prettify_frames:
  fixes self :: "'a DataFramePrettify"
  assumes nc: "num_colors self = length COLORS"
  shows "\<exists>log. prettify str tm self = Inr (final_table str self, log)
           \<and> list_all (\<lambda>f. on_the_way (table self) (final_table str self) (snd f)) log"
proof -
  let ?d = "delay_time self"
  let ?t0 = "table self"
  let ?g = "shown_cells str (first_cols self) (col_limit self)"
  define t1 where "t1 = ?t0\<lparr>t_columns := t_columns ?t0 @ map new_column (columns self)\<rparr>"
  define t2 where "t2 = t1\<lparr>t_rows := t_rows t1 @ map ?g (rows self)\<rparr>"
  define n where "n = length (t_columns t2)"
  define t3 where "t3 = t2\<lparr>t_columns := map (\<lambda>i. (t_columns t2 ! i)\<lparr>justify := ''right''\<rparr>) [0 ..< n]\<rparr>"
  define t4 where "t4 = t3\<lparr>t_columns :=
      map (\<lambda>i. (t_columns t3 ! i)\<lparr>header_style := COLORS ! (i mod 6)\<rparr>) [0 ..< n]\<rparr>"
  define t5 where "t5 = t4\<lparr>t_columns :=
      map (\<lambda>i. (t_columns t4 ! i)\<lparr>style := ''bold '' @ COLORS ! (i mod 6)\<rparr>) [0 ..< n]\<rparr>"
  define t7 where "t7 = t5\<lparr>box := SQUARE, border_style := Some ''bright_yellow''\<rparr>"
  define L1 where "L1 = map (Pair ?d) (trail add_column (columns self) ?t0)"
  define L2 where "L2 = map (Pair ?d) (trail (\<lambda>row. add_row (?g row)) (rows self) t1)"
  define L3 where "L3 = map (Pair ?d) (trail (upd_col (\<lambda>i c. c\<lparr>justify := ''right''\<rparr>)) [0 ..< n] t2)"
  define L4 where "L4 = map (Pair ?d)
      (trail (upd_col (\<lambda>i c. c\<lparr>header_style := COLORS ! (i mod 6)\<rparr>)) [0 ..< n] t3)"
  define L5 where "L5 = map (Pair ?d)
      (trail (upd_col (\<lambda>i c. c\<lparr>style := ''bold '' @ COLORS ! (i mod 6)\<rparr>)) [0 ..< n] t4)"
  define L6 where "L6 = map (\<lambda>b. (?d, t5\<lparr>box := b\<rparr>)) [MINIMAL, SIMPLE, SIMPLE_HEAD, SQUARE]"
  define ws where "ws = map Some (range_values (measure_maximum tm t7) (console_width tm) 2) @ [None]
           @ map Some (range_values (console_width tm) (measure_maximum tm t7) (- 2)) @ [None]
           @ map Some (range_values (measure_maximum tm t7) 90 (- 2)) @ [None]
           @ map Some (range_values 90 (measure_maximum tm t7 + 1) 2) @ [None]"
  define L8 where "L8 = map (\<lambda>w. (1::int, t7\<lparr>width := w\<rparr>)) ws"
  define L9 where "L9 = map (\<lambda>c. (?d, t7\<lparr>width := None, caption := Some c\<rparr>))
      [caption1 (row_limit self) (col_limit self), caption2 (row_limit self) (col_limit self),
       caption3 (row_limit self) (col_limit self)]"
  define tF where "tF = t7\<lparr>width := None, caption := Some (caption3 (row_limit self) (col_limit self))\<rparr>"
  have len: "length (t_columns t2) = n" "length (t_columns t3) = n" "length (t_columns t4) = n"
    by (simp_all add: n_def t3_def t4_def)
  have r1: "add_columns (self, []) = Inr (self\<lparr>table := t1\<rparr>, L1)"
    by (simp add: add_columns_run t1_def L1_def)
  have r2: "add_rows str (self\<lparr>table := t1\<rparr>, L1) = Inr (self\<lparr>table := t2\<rparr>, L1 @ L2)"
    by (simp add: add_rows_run t2_def L2_def)
  have r3: "move_text_to_right (self\<lparr>table := t2\<rparr>, L1 @ L2)
            = Inr (self\<lparr>table := t3\<rparr>, L1 @ L2 @ L3)"
    by (simp add: move_text_to_right_run t3_def L3_def n_def)
  have r4: "add_random_color (self\<lparr>table := t3\<rparr>, L1 @ L2 @ L3)
            = Inr (self\<lparr>table := t4\<rparr>, L1 @ L2 @ L3 @ L4)"
    by (simp add: add_random_color_run nc t4_def L4_def len)
  have r5: "add_style (self\<lparr>table := t4\<rparr>, L1 @ L2 @ L3 @ L4)
            = Inr (self\<lparr>table := t5\<rparr>, L1 @ L2 @ L3 @ L4 @ L5)"
    by (simp add: add_style_run nc t5_def L5_def len)
  have r6: "adjust_box (self\<lparr>table := t5\<rparr>, L1 @ L2 @ L3 @ L4 @ L5)
            = Inr (self\<lparr>table := t5\<lparr>box := SQUARE\<rparr>\<rparr>, L1 @ L2 @ L3 @ L4 @ L5 @ L6)"
    by (simp add: adjust_box_run L6_def)
  have r7: "adjust_border_color (self\<lparr>table := t5\<lparr>box := SQUARE\<rparr>\<rparr>, L1 @ L2 @ L3 @ L4 @ L5 @ L6)
            = Inr (self\<lparr>table := t7\<rparr>, L1 @ L2 @ L3 @ L4 @ L5 @ L6)"
    by (simp add: adjust_border_color_run t7_def)
  have r8: "change_width tm (self\<lparr>table := t7\<rparr>, L1 @ L2 @ L3 @ L4 @ L5 @ L6)
            = Inr (self\<lparr>table := t7\<lparr>width := None\<rparr>\<rparr>, L1 @ L2 @ L3 @ L4 @ L5 @ L6 @ L8)"
    by (simp add: change_width_run L8_def ws_def)
  have r9: "add_caption (self\<lparr>table := t7\<lparr>width := None\<rparr>\<rparr>, L1 @ L2 @ L3 @ L4 @ L5 @ L6 @ L8)
            = Inr (self\<lparr>table := tF\<rparr>, L1 @ L2 @ L3 @ L4 @ L5 @ L6 @ L8 @ L9)"
    by (simp add: add_caption_run L9_def tF_def)
  have run: "prettify str tm self = Inr (tF, L1 @ L2 @ L3 @ L4 @ L5 @ L6 @ L8 @ L9)"
    by (simp add: prettify_def r1 r2 r3 r4 r5 r6 r7 r8 r9)
  obtain log where "prettify str tm self = Inr (final_table str self, log)"
    using prettify_table [OF nc] by blast
  with run have tF: "tF = final_table str self" by simp
  have g23: "same_grid t2 t3" and g24: "same_grid t2 t4" and g25: "same_grid t2 t5"
    and g27: "same_grid t2 t7"
    by (simp_all add: same_grid_def t3_def t4_def t5_def t7_def n_def)
  have rowsF: "t_rows tF = t_rows t2" and colsF: "length (t_columns tF) = length (t_columns t2)"
    and stylesF: "row_styles t2 = row_styles ?t0"
    by (simp_all add: tF_def t7_def t5_def t4_def t3_def t2_def t1_def n_def)
  have grid: "on_the_way ?t0 tF t" if "same_grid t2 t" for t
    using that by (simp add: on_the_way_def same_grid_def rowsF colsF stylesF)
  have q1: "list_all (\<lambda>f. on_the_way ?t0 tF (snd f)) L1"
    unfolding L1_def frames_map_Pair
    by (rule list_all_mono' [OF trail_add_column_keeps])
      (simp add: on_the_way_def rowsF t2_def t1_def)
  have q2: "list_all (\<lambda>f. on_the_way ?t0 tF (snd f)) L2"
    unfolding L2_def frames_map_Pair
    by (rule list_all_mono' [OF trail_add_row_keeps])
      (simp add: on_the_way_def rowsF colsF t2_def t1_def)
  have q3: "list_all (\<lambda>f. on_the_way ?t0 tF (snd f)) L3"
    unfolding L3_def frames_map_Pair
    by (rule list_all_mono' [OF trail_upd_col_grid [of t2 t2]])
      (simp_all add: same_grid_def grid)
  have q4: "list_all (\<lambda>f. on_the_way ?t0 tF (snd f)) L4"
    unfolding L4_def frames_map_Pair
    by (rule list_all_mono' [OF trail_upd_col_grid [OF g23]]) (rule grid)
  have q5: "list_all (\<lambda>f. on_the_way ?t0 tF (snd f)) L5"
    unfolding L5_def frames_map_Pair
    by (rule list_all_mono' [OF trail_upd_col_grid [OF g24]]) (rule grid)
  have q6: "list_all (\<lambda>f. on_the_way ?t0 tF (snd f)) L6"
    using g25 by (simp add: L6_def grid same_grid_def)
  have q8: "list_all (\<lambda>f. on_the_way ?t0 tF (snd f)) L8"
    using g27 by (simp add: L8_def list_all_iff grid same_grid_def)
  have q9: "list_all (\<lambda>f. on_the_way ?t0 tF (snd f)) L9"
    using g27 by (simp add: L9_def grid same_grid_def)
  show ?thesis
    using run q1 q2 q3 q4 q5 q6 q8 q9 unfolding tF by simp
qed


lemma row_styles_final: "row_styles (final_table str self) = row_styles (table self)"
  by (simp add: final_table_def Let_def)

text \<open>
  C10. A run never changes the table's row-style cycle: the returned table, and the table
  in every frame shown on the way, has the \<open>row_styles\<close> the table had at
  initialization. \<^verbatim>\<open>_dim_row\<close>, which is not one of the steps of \<open>prettify\<close>, would set
  it to \<open>["none", "dim"]\<close>.
\<close>

theorem C10_row_styles:
  "\<exists>t log. prettify str tm (init d rl cl fr fc dt) = Inr (t, log)
     \<and> row_styles t = row_styles (table (init d rl cl fr fc dt))
     \<and> list_all (\<lambda>f. row_styles (snd f) = row_styles (table (init d rl cl fr fc dt))) log
     \<and> (\<exists>st. dim_row (init d rl cl fr fc dt, log) = Inr st
            \<and> row_styles (table (fst st)) = [''none'', ''dim''])"
proof -
  let ?self = "init d rl cl fr fc dt"
  obtain log where run: "prettify str tm ?self = Inr (final_table str ?self, log)"
    and fr: "list_all (\<lambda>f. on_the_way (table ?self) (final_table str ?self) (snd f)) log"
    using prettify_frames [OF num_colors_init] by blast
  have "list_all (\<lambda>f. row_styles (snd f) = row_styles (table ?self)) log"
    by (rule list_all_mono' [OF fr]) (simp add: on_the_way_def)
  moreover have "\<exists>st. dim_row (?self, log) = Inr st
      \<and> row_styles (table (fst st)) = [''none'', ''dim'']"
    by (simp add: dim_row_def beat_def)
  ultimately show ?thesis
    using run row_styles_final [of str ?self] by simp
qed

lemma length_slices_cong:
  "length xs = length ys \<Longrightarrow> length (slice_to n xs) = length (slice_to n ys)"
  "length xs = length ys \<Longrightarrow> length (slice_from k xs) = length (slice_from k ys)"
  by (simp_all add: slice_to_def slice_from_def)

lemma set_slices:
  "set (slice_to n xs) \<subseteq> set xs" "set (slice_from k xs) \<subseteq> set xs"
  by (auto simp add: slice_to_def slice_from_def dest: in_set_takeD in_set_dropD)

lemma rows_fit_final:
  assumes "rectangular d"
  shows "rows_fit (final_table str (init d rl cl fr fc dt))"
proof -
  let ?tF = "final_table str (init d rl cl fr fc dt)"
  have cols: "length (t_columns ?tF)
      = length (if fc then slice_to cl (df_columns d) else slice_from (- cl) (df_columns d))"
    using final_headers [of str d rl cl fr fc dt, THEN arg_cong, of length] by simp
  have "length (shown_cells str fc cl row) = length (t_columns ?tF)"
    if "row \<in> set (if fr then slice_to rl (df_values d) else slice_from (- rl) (df_values d))"
    for row
  proof -
    have "row \<in> set (df_values d)"
      using that set_slices [of _ "df_values d"] by (auto split: if_splits)
    then have "length row = length (df_columns d)"
      using assms by (simp add: rectangular_def list_all_iff)
    then show ?thesis
      unfolding cols shown_cells_def
      by (simp add: length_slices_cong [of row "df_columns d"])
  qed
  then show ?thesis
    unfolding rows_fit_def final_rows by (simp add: list_all_iff)
qed

text \<open>
  C9. For a rectangular dataset, every row of the returned table has exactly as many
  cells as the table has columns, and so has every row of the table in every frame of
  the run: no row is ever added with a number of cells other than the number of columns.
\<close>

theorem C9_rows_fit:
  assumes "rectangular d"
  shows "\<exists>t log. prettify str tm (init d rl cl fr fc dt) = Inr (t, log)
           \<and> rows_fit t \<and> list_all (\<lambda>f. rows_fit (snd f)) log"
proof -
  let ?self = "init d rl cl fr fc dt"
  let ?tF = "final_table str ?self"
  obtain log where run: "prettify str tm ?self = Inr (?tF, log)"
    and fr: "list_all (\<lambda>f. on_the_way (table ?self) ?tF (snd f)) log"
    using prettify_frames [OF num_colors_init] by blast
  have fin: "rows_fit ?tF"
    using assms by (rule rows_fit_final)
  have "rows_fit t" if "on_the_way (table ?self) ?tF t" for t
  proof (cases "t_rows t = []")
    case True
    then show ?thesis by (simp add: rows_fit_def)
  next
    case False
    with that have "length (t_columns t) = length (t_columns ?tF)"
      and "set (t_rows t) \<subseteq> set (t_rows ?tF)"
      by (simp_all add: on_the_way_def init_def new_table_def)
    with fin show ?thesis
      by (auto simp add: rows_fit_def list_all_iff)
  qed
  then have "list_all (\<lambda>f. rows_fit (snd f)) log"
    by (rule list_all_mono' [OF fr])
  with run fin show ?thesis by simp
qed

theorem C9_rows_fit_witness:
  "\<exists>t log. prettify str_int tty (init abc_df 2 2 False False 5) = Inr (t, log)
     \<and> rows_fit t \<and> list_all (\<lambda>f. rows_fit (snd f)) log"
  using C9_rows_fit [where d = abc_df and str = str_int and tm = tty and rl = 2 and cl = 2
      and fr = False and fc = False and dt = 5]
  by (simp add: rectangular_def abc_df_def)

end
